theory Spec2Isabelle
  imports Main "HOL-Library.Word" "HOL-Library.Sublist"
begin

section \<open>The chat widget of \<^verbatim>\<open>src/app/static/script.js\<close>\<close>

text \<open>
  The script binds three elements of the host page (a form, a text input and a
  message container), defines \<^verbatim>\<open>appendMessage\<close> and registers one asynchronous
  \<^verbatim>\<open>submit\<close> handler. The embedding below follows the script statement by
  statement. What the script calls but does not define (strings, JSON, the DOM,
  \<^verbatim>\<open>fetch\<close>) is modelled after the ECMAScript, DOM, CSSOM View and Fetch
  standards; what those leave to the engine or to the page's style sheet is a field
  of the record \<open>platform\<close>, so every theorem holds for each engine and layout.
\<close>

subsection \<open>Strings\<close>

text \<open>
  A JavaScript string is a sequence of 16-bit code units. \<open>ascii\<close> embeds the
  script's string literals, all of which are ASCII.
\<close>

type_synonym code_unit = "16 word"
type_synonym jsstring = "code_unit list"

definition ascii :: "string \<Rightarrow> jsstring" where
  "ascii cs = map of_char cs"

text \<open>
  \<^verbatim>\<open>String.prototype.trim\<close> removes leading and trailing WhiteSpace and
  LineTerminator code points (ECMAScript, TrimString): TAB, LF, VT, FF, CR, SP, NBSP,
  U+1680, U+2000..U+200A, LS, PS, U+202F, U+205F, U+3000 and the byte order mark.
\<close>

definition is_white_space :: "code_unit \<Rightarrow> bool" where
  "is_white_space c \<longleftrightarrow>
     c \<in> set [0x0009, 0x000A, 0x000B, 0x000C, 0x000D, 0x0020, 0x00A0, 0x1680,
              0x2028, 0x2029, 0x202F, 0x205F, 0x3000, 0xFEFF]
     \<or> (0x2000 \<le> c \<and> c \<le> 0x200A)"

definition trim :: "jsstring \<Rightarrow> jsstring" where
  "trim s = rev (dropWhile is_white_space (rev (dropWhile is_white_space s)))"

fun intercalate :: "'a list \<Rightarrow> 'a list list \<Rightarrow> 'a list" where
  "intercalate sep [] = []"
| "intercalate sep [x] = x"
| "intercalate sep (x # y # ys) = x @ sep @ intercalate sep (y # ys)"

subsection \<open>Values that \<^verbatim>\<open>response.json()\<close> can produce\<close>

text \<open>
  The value parsed from a JSON text is null, a boolean, a number, a string, an array
  or a plain object. Numbers are IEEE doubles; their type is the parameter \<open>'n\<close>
  and the platform record says which are zero, which are finite and how they print.
  An object is the list of its own properties in the engine's enumeration order;
  a lookup takes the first entry for a key (a parsed object has each key once).
\<close>

datatype 'n json =
    JNull
  | JBool bool
  | JNum 'n
  | JStr jsstring
  | JArr "'n json list"
  | JObj "(jsstring \<times> 'n json) list"

datatype error_name = Error | TypeError | SyntaxError | RangeError | DOMException

datatype js_error = Thrown (err_name: error_name) (err_message: jsstring)

text \<open>
  An element as the script builds it: \<^verbatim>\<open>createElement\<close>,
  \<^verbatim>\<open>classList.add\<close> and \<^verbatim>\<open>textContent\<close> fill these three fields.
\<close>

record node =
  tag_name :: jsstring
  class_list :: "jsstring list"
  text_content :: jsstring

record 'n platform =
  number_is_zero :: "'n \<Rightarrow> bool"
  number_is_finite :: "'n \<Rightarrow> bool"
  number_to_string :: "'n \<Rightarrow> jsstring"
  null_read_message :: "jsstring \<Rightarrow> jsstring"
  to_primitive_message :: jsstring
  stringify_levels :: nat
  join_levels :: nat
  stack_overflow_message :: jsstring
  client_height :: nat
  content_height :: "node list \<Rightarrow> nat"

text \<open>
  \<open>number_is_zero\<close> holds for +0 and -0 (the falsy numbers a JSON text can denote),
  \<open>number_to_string\<close> is Number::toString, \<open>null_read_message k\<close> is the message
  of the TypeError the engine throws when property \<open>k\<close> of null is read,
  \<open>to_primitive_message\<close> that of the TypeError of OrdinaryToPrimitive.
  \<^verbatim>\<open>JSON.stringify\<close> and \<^verbatim>\<open>Array.prototype.join\<close> recurse into nested
  values, and the engine throws a RangeError with the message
  \<open>stack_overflow_message\<close> when its stack is exhausted: \<open>stringify_levels\<close> and
  \<open>join_levels\<close> are the levels of nesting, beyond the outermost one, that the
  stack holds for each of the two.
  \<open>client_height\<close> is the height of the container's viewport and
  \<open>content_height\<close> the height the page's layout gives to the container's
  children, both in pixels.
\<close>

text \<open>ToBoolean: null, false, zero and the empty string are falsy.\<close>

fun truthy :: "'n platform \<Rightarrow> 'n json \<Rightarrow> bool" where
  "truthy p JNull = False"
| "truthy p (JBool b) = b"
| "truthy p (JNum n) = (\<not> number_is_zero p n)"
| "truthy p (JStr s) = (s \<noteq> [])"
| "truthy p (JArr xs) = True"
| "truthy p (JObj kvs) = True"

text \<open>
  Reading a property: \<^verbatim>\<open>data.reply\<close>. On null it throws a TypeError. An object
  yields its own property or \<^verbatim>\<open>undefined\<close> (\<open>None\<close>); neither
  \<^verbatim>\<open>Object.prototype\<close> nor the prototypes of the primitives and of arrays
  have a property named \<^verbatim>\<open>reply\<close> or \<^verbatim>\<open>response\<close>.
\<close>

fun get_property :: "'n platform \<Rightarrow> 'n json \<Rightarrow> jsstring \<Rightarrow> js_error + 'n json option" where
  "get_property p JNull k = Inl (Thrown TypeError (null_read_message p k))"
| "get_property p (JObj kvs) k = Inr (map_of kvs k)"
| "get_property p v k = Inr None"

subsection \<open>\<^verbatim>\<open>JSON.stringify\<close>\<close>

definition hex_digit :: "nat \<Rightarrow> code_unit" where
  "hex_digit d = (if d < 10 then 0x30 + of_nat d else 0x61 + of_nat (d - 10))"

text \<open>UnicodeEscape: a backslash, \<^verbatim>\<open>u\<close> and four lower-case hexadecimal digits.\<close>

definition unicode_escape :: "code_unit \<Rightarrow> jsstring" where
  "unicode_escape c =
     [0x5C, 0x75,
      hex_digit (unat c div 4096 mod 16), hex_digit (unat c div 256 mod 16),
      hex_digit (unat c div 16 mod 16), hex_digit (unat c mod 16)]"

definition is_high_surrogate :: "code_unit \<Rightarrow> bool" where
  "is_high_surrogate c \<longleftrightarrow> 0xD800 \<le> c \<and> c \<le> 0xDBFF"

definition is_low_surrogate :: "code_unit \<Rightarrow> bool" where
  "is_low_surrogate c \<longleftrightarrow> 0xDC00 \<le> c \<and> c \<le> 0xDFFF"

text \<open>
  QuoteJSONString on one code point that is a single code unit: the short escapes,
  then \<open>unicode_escape\<close> for the other control characters and for a lone surrogate.
\<close>

definition quote_unit :: "code_unit \<Rightarrow> jsstring" where
  "quote_unit c =
     (if c = 0x08 then [0x5C, 0x62]
      else if c = 0x09 then [0x5C, 0x74]
      else if c = 0x0A then [0x5C, 0x6E]
      else if c = 0x0C then [0x5C, 0x66]
      else if c = 0x0D then [0x5C, 0x72]
      else if c = 0x22 then [0x5C, 0x22]
      else if c = 0x5C then [0x5C, 0x5C]
      else if c < 0x20 \<or> is_high_surrogate c \<or> is_low_surrogate c then unicode_escape c
      else [c])"

fun quote_units :: "jsstring \<Rightarrow> jsstring" where
  "quote_units [] = []"
| "quote_units [c] = quote_unit c"
| "quote_units (c # d # ds) =
     (if is_high_surrogate c \<and> is_low_surrogate d then c # d # quote_units ds
      else quote_unit c @ quote_units (d # ds))"

definition quote_json_string :: "jsstring \<Rightarrow> jsstring" where
  "quote_json_string s = [0x22] @ quote_units s @ [0x22]"

text \<open>
  \<^verbatim>\<open>JSON.stringify(value)\<close> with no replacer and no indentation. A parsed value
  holds no function, so no \<^verbatim>\<open>toJSON\<close> is called and no property is skipped;
  a number that is not finite prints as \<^verbatim>\<open>null\<close>.
\<close>

fun JSON_stringify :: "'n platform \<Rightarrow> 'n json \<Rightarrow> jsstring" where
  "JSON_stringify p JNull = ascii ''null''"
| "JSON_stringify p (JBool b) = (if b then ascii ''true'' else ascii ''false'')"
| "JSON_stringify p (JNum n) =
     (if number_is_finite p n then number_to_string p n else ascii ''null'')"
| "JSON_stringify p (JStr s) = quote_json_string s"
| "JSON_stringify p (JArr xs) =
     ascii ''['' @ intercalate (ascii '','') (map (JSON_stringify p) xs) @ ascii '']''"
| "JSON_stringify p (JObj kvs) =
     ascii ''{'' @
     intercalate (ascii '','')
       (map (\<lambda>(k, v). quote_json_string k @ ascii '':'' @ JSON_stringify p v) kvs) @
     ascii ''}''"

text \<open>
  The levels of nesting of a value, and the call \<^verbatim>\<open>JSON.stringify(value)\<close> as
  the engine runs it: it returns the serialization when the stack holds the nesting
  and throws a RangeError otherwise. No other step of the serialization can throw on
  a parsed value.
\<close>

fun json_depth :: "'n json \<Rightarrow> nat" where
  "json_depth (JArr xs) = Suc (foldr max (map json_depth xs) 0)"
| "json_depth (JObj kvs) = Suc (foldr max (map (\<lambda>(k, v). json_depth v) kvs) 0)"
| "json_depth v = 0"

definition call_JSON_stringify :: "'n platform \<Rightarrow> 'n json \<Rightarrow> js_error + jsstring" where
  "call_JSON_stringify p v =
     (if json_depth v \<le> Suc (stringify_levels p) then Inr (JSON_stringify p v)
      else Inl (Thrown RangeError (stack_overflow_message p)))"

subsection \<open>Conversion to a string\<close>

fun collect :: "(js_error + 'a) list \<Rightarrow> js_error + 'a list" where
  "collect [] = Inr []"
| "collect (Inl e # rs) = Inl e"
| "collect (Inr x # rs) = (case collect rs of Inl e \<Rightarrow> Inl e | Inr xs \<Rightarrow> Inr (x # xs))"

text \<open>
  ToString on a parsed value. An array prints through \<^verbatim>\<open>Array.prototype.join\<close>,
  where null elements print as the empty string. A plain object prints as
  \<^verbatim>\<open>[object Object]\<close> through \<^verbatim>\<open>Object.prototype.toString\<close>, unless it
  has an own property \<^verbatim>\<open>toString\<close>: a parsed property is never callable, so
  OrdinaryToPrimitive finds no method that returns a primitive and throws a TypeError.
  \<open>to_string_at p d\<close> converts a value that stands inside \<open>d\<close> arrays; the elements
  are converted from left to right and the first exception ends the conversion.
\<close>

fun to_string_at :: "'n platform \<Rightarrow> nat \<Rightarrow> 'n json \<Rightarrow> js_error + jsstring" where
  "to_string_at p d JNull = Inr (ascii ''null'')"
| "to_string_at p d (JBool b) = Inr (if b then ascii ''true'' else ascii ''false'')"
| "to_string_at p d (JNum n) = Inr (number_to_string p n)"
| "to_string_at p d (JStr s) = Inr s"
| "to_string_at p d (JArr xs) =
     (if join_levels p < d then Inl (Thrown RangeError (stack_overflow_message p))
      else case collect
                  (map (\<lambda>x. case x of JNull \<Rightarrow> Inr [] | _ \<Rightarrow> to_string_at p (Suc d) x) xs) of
             Inl e \<Rightarrow> Inl e
           | Inr ss \<Rightarrow> Inr (intercalate (ascii '','') ss))"
| "to_string_at p d (JObj kvs) =
     (if map_of kvs (ascii ''toString'') = None then Inr (ascii ''[object Object]'')
      else Inl (Thrown TypeError (to_primitive_message p)))"

definition to_string :: "'n platform \<Rightarrow> 'n json \<Rightarrow> js_error + jsstring" where
  "to_string p v = to_string_at p 0 v"

subsection \<open>The page: the three elements the script binds\<close>

datatype sender = User | Agent

fun sender_token :: "sender \<Rightarrow> jsstring" where
  "sender_token User = ascii ''user''"
| "sender_token Agent = ascii ''agent''"

record container =
  children :: "node list"
  scroll_top :: nat

record request =
  req_url :: jsstring
  req_method :: jsstring
  req_headers :: "(jsstring \<times> jsstring) list"
  req_body :: jsstring

text \<open>
  The effects of the script that leave the handler, in the order they happen:
  \<^verbatim>\<open>e.preventDefault()\<close>, \<^verbatim>\<open>chatWindow.appendChild\<close>, the assignment to
  \<^verbatim>\<open>userInput.value\<close> and \<^verbatim>\<open>fetch\<close>. The field \<open>trace\<close> of the page
  records them; nothing in the script reads it.
\<close>

datatype effect =
    DefaultPrevented
  | Rendered node
  | InputSet jsstring
  | Requested request

record page =
  input_value :: jsstring
  chatWindow :: container
  trace :: "effect list"

definition requests :: "effect list \<Rightarrow> request list" where
  "requests es = concat (map (\<lambda>e. case e of Requested r \<Rightarrow> [r] | _ \<Rightarrow> []) es)"

definition rendered :: "effect list \<Rightarrow> node list" where
  "rendered es = concat (map (\<lambda>e. case e of Rendered n \<Rightarrow> [n] | _ \<Rightarrow> []) es)"

text \<open>
  CSSOM View. \<^verbatim>\<open>scrollHeight\<close> is the height of the scrolling area, never less
  than the viewport. Assigning \<open>y\<close> to \<^verbatim>\<open>scrollTop\<close> of a scroll container
  scrolls to \<open>y\<close> clamped to the scrollable range, whose largest offset is
  \<^verbatim>\<open>scrollHeight - clientHeight\<close>. Lengths are whole pixels.
\<close>

definition scrollHeight :: "'n platform \<Rightarrow> container \<Rightarrow> nat" where
  "scrollHeight p w = max (content_height p (children w)) (client_height p)"

definition set_scrollTop :: "'n platform \<Rightarrow> nat \<Rightarrow> container \<Rightarrow> container" where
  "set_scrollTop p y w = w\<lparr>scroll_top := min y (scrollHeight p w - client_height p)\<rparr>"

definition appendChild :: "node \<Rightarrow> container \<Rightarrow> container" where
  "appendChild n w = w\<lparr>children := children w @ [n]\<rparr>"

text \<open>
  The setter of \<^verbatim>\<open>textContent\<close> takes a nullable DOMString: null becomes the
  empty string, every other value goes through ToString, which may throw.
\<close>

definition textContent_value :: "'n platform \<Rightarrow> 'n json \<Rightarrow> js_error + jsstring" where
  "textContent_value p v = (case v of JNull \<Rightarrow> Inr [] | _ \<Rightarrow> to_string p v)"

subsection \<open>\<^verbatim>\<open>appendMessage\<close>\<close>

text \<open>
  \<^verbatim>\<open>
  function appendMessage(text, sender) {
      const msg = document.createElement('div');
      msg.classList.add('chat-message', sender);
      msg.textContent = text;
      chatWindow.appendChild(msg);
      chatWindow.scrollTop = chatWindow.scrollHeight;
  }\<close>
  The result says whether the call returned or threw; when the assignment to
  \<^verbatim>\<open>textContent\<close> throws, the page is as before.
\<close>

definition message_node :: "jsstring \<Rightarrow> sender \<Rightarrow> node" where
  "message_node t sender =
     \<lparr>tag_name = ascii ''div'',
      class_list = [ascii ''chat-message'', sender_token sender],
      text_content = t\<rparr>"

definition appendMessage :: "'n platform \<Rightarrow> 'n json \<Rightarrow> sender \<Rightarrow> page \<Rightarrow> (js_error + unit) \<times> page" where
  "appendMessage p txt sender s =
     (let msg = \<lparr>tag_name = ascii ''div'', class_list = [], text_content = []\<rparr>;
          msg = msg\<lparr>class_list := [ascii ''chat-message'', sender_token sender]\<rparr>
      in case textContent_value p txt of
           Inl e \<Rightarrow> (Inl e, s)
         | Inr t \<Rightarrow>
             let msg = msg\<lparr>text_content := t\<rparr>;
                 w = appendChild msg (chatWindow s);
                 w = set_scrollTop p (scrollHeight p w) w
             in (Inr (), s\<lparr>chatWindow := w, trace := trace s @ [Rendered msg]\<rparr>))"

subsection \<open>The network as the handler sees it\<close>

text \<open>
  A promise the handler awaits stays pending for ever, is fulfilled with a value or
  is rejected with an error. \<^verbatim>\<open>fetch\<close> rejects when no response arrives (a
  transport failure) and is fulfilled with the response otherwise, whatever its
  status; \<^verbatim>\<open>response.ok\<close> is true for the statuses 200 to 299 (Fetch standard).
  \<^verbatim>\<open>response.json()\<close> is rejected when the body cannot be read or is not a JSON
  text.
\<close>

datatype 'a promise = Pending | Fulfilled 'a | Rejected js_error

record 'n response =
  status :: nat
  json_result :: "'n json promise"

definition ok :: "'n response \<Rightarrow> bool" where
  "ok r \<longleftrightarrow> 200 \<le> status r \<and> status r \<le> 299"

definition fetch :: "jsstring \<Rightarrow> jsstring \<Rightarrow> (jsstring \<times> jsstring) list \<Rightarrow> jsstring \<Rightarrow> page \<Rightarrow> page" where
  "fetch u m hs b s =
     s\<lparr>trace := trace s @
          [Requested \<lparr>req_url = u, req_method = m, req_headers = hs, req_body = b\<rparr>]\<rparr>"

definition preventDefault :: "page \<Rightarrow> page" where
  "preventDefault s = s\<lparr>trace := trace s @ [DefaultPrevented]\<rparr>"

definition set_input_value :: "jsstring \<Rightarrow> page \<Rightarrow> page" where
  "set_input_value v s = s\<lparr>input_value := v, trace := trace s @ [InputSet v]\<rparr>"

subsection \<open>The submit handler\<close>

text \<open>
  An asynchronous function runs to its next \<^verbatim>\<open>await\<close> without interruption and
  is resumed when the awaited promise settles. The handler has two awaits, hence
  three parts. Each part yields how the handler stands afterwards: it returned, an
  exception left it (its promise is rejected), or it is suspended at an await.
\<close>

datatype await_point = AwaitFetch | AwaitJson

datatype completion = Returned | Threw js_error | Suspended await_point

text \<open>
  \<^verbatim>\<open>
  } catch (err) {
      appendMessage('Error: ' + err.message, 'agent');
  }\<close>
\<close>

definition catch_block :: "'n platform \<Rightarrow> js_error \<Rightarrow> page \<Rightarrow> completion \<times> page" where
  "catch_block p err s =
     (case appendMessage p (JStr (ascii ''Error: '' @ err_message err)) Agent s of
        (Inl e, s') \<Rightarrow> (Threw e, s')
      | (Inr u, s') \<Rightarrow> (Returned, s'))"

text \<open>
  \<^verbatim>\<open>
  e.preventDefault();
  const message = userInput.value.trim();
  if (!message) return;
  appendMessage(message, 'user');
  userInput.value = '';
  try {
      const response = await fetch('/api/chat', {
          method: 'POST',
          headers: { 'Content-Type': 'application/json', },
          body: JSON.stringify({ message }),
      });\<close>
  The first two statements after the guard stand outside the \<^verbatim>\<open>try\<close>: an
  exception there would leave the handler. The object \<^verbatim>\<open>{ message }\<close> has one
  level and holds a string, so its serialization does not throw
  (\<open>flat_object_serializes\<close>).
\<close>

definition on_submit :: "'n platform \<Rightarrow> page \<Rightarrow> completion \<times> page" where
  "on_submit p s0 =
     (let s1 = preventDefault s0;
          message = trim (input_value s1)
      in if message = [] then (Returned, s1)
         else case appendMessage p (JStr message) User s1 of
                (Inl e, s2) \<Rightarrow> (Threw e, s2)
              | (Inr u, s2) \<Rightarrow>
                  let s3 = set_input_value [] s2;
                      s4 = fetch (ascii ''/api/chat'') (ascii ''POST'')
                             [(ascii ''Content-Type'', ascii ''application/json'')]
                             (JSON_stringify p (JObj [(ascii ''message'', JStr message)])) s3
                  in (Suspended AwaitFetch, s4))"

text \<open>
  \<^verbatim>\<open>
      if (!response.ok) {
          throw new Error('Server error');
      }
      const data = await response.json();\<close>
  resumed with the rejection (\<open>Inl\<close>) or the response (\<open>Inr\<close>) of \<^verbatim>\<open>fetch\<close>.
\<close>

definition after_fetch :: "'n platform \<Rightarrow> js_error + 'n response \<Rightarrow> page \<Rightarrow> completion \<times> page" where
  "after_fetch p settled s =
     (case settled of
        Inl err \<Rightarrow> catch_block p err s
      | Inr response \<Rightarrow>
          if \<not> ok response then catch_block p (Thrown Error (ascii ''Server error'')) s
          else (Suspended AwaitJson, s))"

text \<open>
  \<^verbatim>\<open>data.reply || data.response || JSON.stringify(data)\<close>: the first operand
  that is truthy, else the last one. \<^verbatim>\<open>undefined\<close> is falsy. The last
  operand is evaluated only when it is reached, and its call can throw.
\<close>

definition truthy_property :: "'n platform \<Rightarrow> 'n json option \<Rightarrow> bool" where
  "truthy_property p r = (case r of None \<Rightarrow> False | Some v \<Rightarrow> truthy p v)"

definition reply_expression :: "'n platform \<Rightarrow> 'n json \<Rightarrow> js_error + 'n json" where
  "reply_expression p data =
     (case get_property p data (ascii ''reply'') of
        Inl e \<Rightarrow> Inl e
      | Inr r \<Rightarrow>
          if truthy_property p r then Inr (the r)
          else (case get_property p data (ascii ''response'') of
                  Inl e \<Rightarrow> Inl e
                | Inr r' \<Rightarrow>
                    if truthy_property p r' then Inr (the r')
                    else (case call_JSON_stringify p data of
                            Inl e \<Rightarrow> Inl e
                          | Inr t \<Rightarrow> Inr (JStr t))))"

text \<open>
  \<^verbatim>\<open>
      appendMessage(data.reply || data.response || JSON.stringify(data), 'agent');
  } catch (err) { ... }\<close>
  resumed with the rejection or the value of \<^verbatim>\<open>response.json()\<close>.
\<close>

definition after_json :: "'n platform \<Rightarrow> js_error + 'n json \<Rightarrow> page \<Rightarrow> completion \<times> page" where
  "after_json p settled s =
     (case settled of
        Inl err \<Rightarrow> catch_block p err s
      | Inr data \<Rightarrow>
          (case reply_expression p data of
             Inl err \<Rightarrow> catch_block p err s
           | Inr v \<Rightarrow>
               (case appendMessage p v Agent s of
                  (Inl err, s') \<Rightarrow> catch_block p err s'
                | (Inr u, s') \<Rightarrow> (Returned, s'))))"

text \<open>
  One submission with nothing else happening on the page in between: the three parts
  in sequence, against what the network does with the request.
\<close>

definition submit :: "'n platform \<Rightarrow> 'n response promise \<Rightarrow> page \<Rightarrow> completion \<times> page" where
  "submit p net s =
     (let (c1, s1) = on_submit p s in
      if c1 \<noteq> Suspended AwaitFetch then (c1, s1)
      else case net of
             Pending \<Rightarrow> (c1, s1)
           | Rejected err \<Rightarrow> after_fetch p (Inl err) s1
           | Fulfilled response \<Rightarrow>
               (let (c2, s2) = after_fetch p (Inr response) s1 in
                if c2 \<noteq> Suspended AwaitJson then (c2, s2)
                else case json_result response of
                       Pending \<Rightarrow> (c2, s2)
                     | Rejected err \<Rightarrow> after_json p (Inl err) s2
                     | Fulfilled data \<Rightarrow> after_json p (Inr data) s2))"

fun decimal :: "nat \<Rightarrow> jsstring" where
  "decimal n = (if n < 10 then [hex_digit n] else decimal (n div 10) @ [hex_digit (n mod 10)])"

text \<open>A host to evaluate the model on: integers as numbers, V8's messages, a 100 pixel
  viewport and 20 pixels for each message. Its stack is shallow (three levels of nesting
  for each of the two recursions), so that a small value reaches the limit.\<close>

definition sample_platform :: "int platform" where
  "sample_platform =
     \<lparr>number_is_zero = (\<lambda>n. n = 0),
      number_is_finite = (\<lambda>n. True),
      number_to_string = (\<lambda>n. (if n < 0 then ascii ''-'' else []) @ decimal (nat \<bar>n\<bar>)),
      null_read_message =
        (\<lambda>k. ascii ''Cannot read properties of null (reading '' @ [0x27] @ k @ [0x27] @ ascii '')''),
      to_primitive_message = ascii ''Cannot convert object to primitive value'',
      stringify_levels = 2,
      join_levels = 2,
      stack_overflow_message = ascii ''Maximum call stack size exceeded'',
      client_height = 100,
      content_height = (\<lambda>ns. 20 * length ns)\<rparr>"

definition empty_page :: page where
  "empty_page = \<lparr>input_value = [], chatWindow = \<lparr>children = [], scroll_top = 0\<rparr>, trace = []\<rparr>"

text \<open>
  The page with other activity in between. The script runs one piece at a time, and
  between two pieces of one handler anything else can run: the user edits the field,
  another submission starts, a continuation of some handler is resumed. \<open>step\<close>
  lets each of them happen at any moment, which covers every schedule of overlapping
  submissions (the script does not prevent them).
\<close>

inductive step :: "'n platform \<Rightarrow> page \<Rightarrow> page \<Rightarrow> bool" for p :: "'n platform" where
  typed: "step p s (s\<lparr>input_value := v\<rparr>)"
| submitted: "step p s (snd (on_submit p s))"
| fetch_settled: "step p s (snd (after_fetch p settled s))"
| json_settled: "step p s (snd (after_json p settled s))"

subsection \<open>Notions used to state the properties\<close>

text \<open>
  The page after \<^verbatim>\<open>appendMessage\<close> has appended the node \<open>n\<close> and scrolled, and
  whether a node carries the class of a sender.
\<close>

definition shown :: "'n platform \<Rightarrow> node \<Rightarrow> page \<Rightarrow> page" where
  "shown p n s =
     s\<lparr>chatWindow :=
         \<lparr>children = children (chatWindow s) @ [n],
          scroll_top = max (content_height p (children (chatWindow s) @ [n])) (client_height p)
                       - client_height p\<rparr>,
       trace := trace s @ [Rendered n]\<rparr>"

definition sent_by :: "sender \<Rightarrow> node \<Rightarrow> bool" where
  "sent_by sd n \<longleftrightarrow> sender_token sd \<in> set (class_list n)"

text \<open>
  The field of a body as the specification speaks of it: present when the body is an
  object that has the property.
\<close>

definition own_property :: "'n json \<Rightarrow> jsstring \<Rightarrow> 'n json option" where
  "own_property data k = (case data of JObj kvs \<Rightarrow> map_of kvs k | _ \<Rightarrow> None)"

text \<open>
  The reply text in the specification's words: the value of the \<^verbatim>\<open>reply\<close> field;
  if there is no such field, the value of the \<^verbatim>\<open>response\<close> field; the serialized
  body only if neither field is present. The handler is compared with it below.
\<close>

definition spec_reply_text :: "'n platform \<Rightarrow> 'n json \<Rightarrow> js_error + jsstring" where
  "spec_reply_text p data =
     (case own_property data (ascii ''reply'') of
        Some v \<Rightarrow> textContent_value p v
      | None \<Rightarrow>
          (case own_property data (ascii ''response'') of
             Some v \<Rightarrow> textContent_value p v
           | None \<Rightarrow> Inr (JSON_stringify p data)))"

text \<open>
  The text of the agent message in closed form: for a parsed body, and for each way
  the network can answer (\<open>None\<close> while a promise stays pending). The handler is
  proved to show exactly this text (\<open>submit_closed_form\<close>).
\<close>

definition reply_text :: "'n platform \<Rightarrow> 'n json \<Rightarrow> jsstring" where
  "reply_text p data =
     (case reply_expression p data of
        Inl e \<Rightarrow> ascii ''Error: '' @ err_message e
      | Inr v \<Rightarrow>
          (case textContent_value p v of
             Inl e \<Rightarrow> ascii ''Error: '' @ err_message e
           | Inr t \<Rightarrow> t))"

definition agent_text :: "'n platform \<Rightarrow> 'n response promise \<Rightarrow> jsstring option" where
  "agent_text p net =
     (case net of
        Pending \<Rightarrow> None
      | Rejected err \<Rightarrow> Some (ascii ''Error: '' @ err_message err)
      | Fulfilled r \<Rightarrow>
          if \<not> ok r then Some (ascii ''Error: Server error'')
          else (case json_result r of
                  Pending \<Rightarrow> None
                | Rejected err \<Rightarrow> Some (ascii ''Error: '' @ err_message err)
                | Fulfilled data \<Rightarrow> Some (reply_text p data)))"

section \<open>Properties\<close>

subsection \<open>Strings and effects\<close>

lemma ascii_append [simp]: "ascii (a @ b) = ascii a @ ascii b"
  by (simp add: ascii_def)

lemma ascii_Nil [simp]: "ascii [] = []"
  by (simp add: ascii_def)

lemma ascii_is_Nil [simp]: "ascii cs = [] \<longleftrightarrow> cs = []"
  by (simp add: ascii_def)

lemma trim_sample: "trim (ascii '' hi '') = ascii ''hi''"
  by (simp add: trim_def is_white_space_def ascii_def)

lemma requests_append [simp]: "requests (xs @ ys) = requests xs @ requests ys"
  by (simp add: requests_def)

lemma rendered_append [simp]: "rendered (xs @ ys) = rendered xs @ rendered ys"
  by (simp add: rendered_def)

lemma requests_simps [simp]:
  "requests [] = []"
  "requests (DefaultPrevented # es) = requests es"
  "requests (Rendered n # es) = requests es"
  "requests (InputSet v # es) = requests es"
  "requests (Requested r # es) = r # requests es"
  by (simp_all add: requests_def)

lemma rendered_simps [simp]:
  "rendered [] = []"
  "rendered (DefaultPrevented # es) = rendered es"
  "rendered (Rendered n # es) = n # rendered es"
  "rendered (InputSet v # es) = rendered es"
  "rendered (Requested r # es) = rendered es"
  by (simp_all add: rendered_def)

lemma sent_by_message_node [simp]: "sent_by sd (message_node t sd') \<longleftrightarrow> sd = sd'"
  by (cases sd; cases sd') (simp_all add: sent_by_def message_node_def ascii_def)

lemma text_content_message_node [simp]: "text_content (message_node t sd) = t"
  by (simp add: message_node_def)

subsection \<open>\<^verbatim>\<open>appendMessage\<close> and the parts of the handler\<close>

lemma to_string_string [simp]: "to_string p (JStr t) = Inr t"
  by (simp add: to_string_def)

lemma textContent_value_string [simp]: "textContent_value p (JStr t) = Inr t"
  by (simp add: textContent_value_def)

lemma flat_object_serializes:
  "call_JSON_stringify p (JObj [(k, JStr m)]) = Inr (JSON_stringify p (JObj [(k, JStr m)]))"
  by (simp add: call_JSON_stringify_def)

lemma appendMessage_shown:
  "appendMessage p txt sd s =
     (case textContent_value p txt of
        Inl e \<Rightarrow> (Inl e, s)
      | Inr t \<Rightarrow> (Inr (), shown p (message_node t sd) s))"
  by (cases "chatWindow s")
     (simp add: appendMessage_def shown_def message_node_def appendChild_def
        set_scrollTop_def scrollHeight_def Let_def split: sum.splits)

lemma shown_simps [simp]:
  "children (chatWindow (shown p n s)) = children (chatWindow s) @ [n]"
  "trace (shown p n s) = trace s @ [Rendered n]"
  "input_value (shown p n s) = input_value s"
  by (simp_all add: shown_def)

lemma catch_block_shown:
  "catch_block p err s =
     (Returned, shown p (message_node (ascii ''Error: '' @ err_message err) Agent) s)"
  by (simp add: catch_block_def appendMessage_shown del: ascii_append)

lemma on_submit_blank:
  "trim (input_value s) = [] \<Longrightarrow>
   on_submit p s = (Returned, s\<lparr>trace := trace s @ [DefaultPrevented]\<rparr>)"
  by (simp add: on_submit_def preventDefault_def Let_def)

lemma on_submit_text:
  "trim (input_value s) \<noteq> [] \<Longrightarrow>
   on_submit p s =
     (Suspended AwaitFetch,
      fetch (ascii ''/api/chat'') (ascii ''POST'')
        [(ascii ''Content-Type'', ascii ''application/json'')]
        (JSON_stringify p (JObj [(ascii ''message'', JStr (trim (input_value s)))]))
        (set_input_value []
          (shown p (message_node (trim (input_value s)) User) (preventDefault s))))"
  by (simp add: on_submit_def Let_def appendMessage_shown preventDefault_def)

lemma submit_pending:
  "trim (input_value s) \<noteq> [] \<Longrightarrow> submit p Pending s = on_submit p s"
  by (simp add: submit_def on_submit_text)

lemma submit_rejected:
  "trim (input_value s) \<noteq> [] \<Longrightarrow>
   submit p (Rejected err) s =
     (Returned,
      shown p (message_node (ascii ''Error: '' @ err_message err) Agent) (snd (on_submit p s)))"
  by (simp add: submit_def on_submit_text after_fetch_def catch_block_shown del: ascii_append)

lemma submit_not_ok:
  "trim (input_value s) \<noteq> [] \<Longrightarrow> \<not> ok r \<Longrightarrow>
   submit p (Fulfilled r) s =
     (Returned,
      shown p (message_node (ascii ''Error: Server error'') Agent) (snd (on_submit p s)))"
  by (simp add: submit_def on_submit_text after_fetch_def catch_block_shown ascii_def)

lemma submit_ok:
  "trim (input_value s) \<noteq> [] \<Longrightarrow> ok r \<Longrightarrow>
   submit p (Fulfilled r) s =
     (case json_result r of
        Pending \<Rightarrow> (Suspended AwaitJson, snd (on_submit p s))
      | Rejected err \<Rightarrow> after_json p (Inl err) (snd (on_submit p s))
      | Fulfilled data \<Rightarrow> after_json p (Inr data) (snd (on_submit p s)))"
  by (simp add: submit_def on_submit_text after_fetch_def split: promise.splits)

lemma on_submit_page:
  assumes "trim (input_value s) \<noteq> []"
  shows "children (chatWindow (snd (on_submit p s))) =
           children (chatWindow s) @ [message_node (trim (input_value s)) User]"
    and "input_value (snd (on_submit p s)) = []"
    and "trace (snd (on_submit p s)) =
           trace s @
           [DefaultPrevented,
            Rendered (message_node (trim (input_value s)) User),
            InputSet [],
            Requested
              \<lparr>req_url = ascii ''/api/chat'', req_method = ascii ''POST'',
               req_headers = [(ascii ''Content-Type'', ascii ''application/json'')],
               req_body = JSON_stringify p (JObj [(ascii ''message'', JStr (trim (input_value s)))])\<rparr>]"
  using assms
  by (simp_all add: on_submit_text fetch_def set_input_value_def preventDefault_def)

lemma after_json_rejected:
  "after_json p (Inl err) s =
     (Returned, shown p (message_node (ascii ''Error: '' @ err_message err) Agent) s)"
  by (simp add: after_json_def catch_block_shown del: ascii_append)

lemma after_json_parsed:
  "after_json p (Inr data) s = (Returned, shown p (message_node (reply_text p data) Agent) s)"
  by (simp add: after_json_def reply_text_def catch_block_shown appendMessage_shown
      split: sum.splits del: ascii_append)

subsection \<open>One submission in closed form\<close>

lemma submit_closed_form:
  assumes "trim (input_value s) \<noteq> []"
  shows "submit p net s =
     (case agent_text p net of
        None \<Rightarrow> (Suspended (if net = Pending then AwaitFetch else AwaitJson), snd (on_submit p s))
      | Some t \<Rightarrow> (Returned, shown p (message_node t Agent) (snd (on_submit p s))))"
proof (cases net)
  case Pending
  then show ?thesis using assms by (simp add: submit_pending agent_text_def on_submit_text)
next
  case (Rejected err)
  then show ?thesis using assms by (simp add: submit_rejected agent_text_def del: ascii_append)
next
  case (Fulfilled r)
  show ?thesis
  proof (cases "ok r")
    case False
    then show ?thesis using assms Fulfilled by (simp add: submit_not_ok agent_text_def)
  next
    case True
    then show ?thesis using assms Fulfilled
      by (simp add: submit_ok agent_text_def after_json_rejected after_json_parsed
          split: promise.splits del: ascii_append)
  qed
qed

lemma submit_page:
  assumes "trim (input_value s) \<noteq> []"
  shows "children (chatWindow (snd (submit p net s))) =
           children (chatWindow s) @ message_node (trim (input_value s)) User #
           (case agent_text p net of None \<Rightarrow> [] | Some t \<Rightarrow> [message_node t Agent])"
    and "input_value (snd (submit p net s)) = []"
    and "trace (snd (submit p net s)) =
           trace (snd (on_submit p s)) @
           (case agent_text p net of None \<Rightarrow> [] | Some t \<Rightarrow> [Rendered (message_node t Agent)])"
    and "fst (submit p net s) \<noteq> Threw e"
  using assms by (simp_all add: submit_closed_form on_submit_page split: option.splits)

text \<open>
  What a submission does depends on the text in the input field and on the network's
  answer only: on any page it adds to the container and to the trace what it adds on
  the empty page.
\<close>

lemma submit_frame:
  "fst (submit p net s) = fst (submit p net (empty_page\<lparr>input_value := input_value s\<rparr>))
   \<and> children (chatWindow (snd (submit p net s))) =
       children (chatWindow s) @
       children (chatWindow (snd (submit p net (empty_page\<lparr>input_value := input_value s\<rparr>))))
   \<and> trace (snd (submit p net s)) =
       trace s @ trace (snd (submit p net (empty_page\<lparr>input_value := input_value s\<rparr>)))
   \<and> input_value (snd (submit p net s)) =
       input_value (snd (submit p net (empty_page\<lparr>input_value := input_value s\<rparr>)))"
proof (cases "trim (input_value s) = []")
  case True
  then show ?thesis
    by (simp add: submit_def on_submit_blank empty_page_def)
next
  case False
  then have "trim (input_value (empty_page\<lparr>input_value := input_value s\<rparr>)) \<noteq> []"
    by simp
  with False show ?thesis
    by (simp add: submit_closed_form on_submit_page empty_page_def split: option.splits)
qed

subsection \<open>The reply of a successful exchange\<close>

lemma own_property_get:
  "data \<noteq> JNull \<Longrightarrow> get_property p data k = Inr (own_property data k)"
  by (cases data) (simp_all add: own_property_def)

lemma truthy_textContent:
  "truthy p v \<Longrightarrow> textContent_value p v = to_string p v"
  by (cases v) (simp_all add: textContent_value_def)

lemma reply_text_first:
  assumes "data \<noteq> JNull" "own_property data (ascii ''reply'') = Some v" "truthy p v"
  shows "reply_text p data =
           (case to_string p v of Inr t \<Rightarrow> t | Inl e \<Rightarrow> ascii ''Error: '' @ err_message e)"
  using assms
  by (simp add: reply_text_def reply_expression_def own_property_get truthy_property_def
      truthy_textContent del: ascii_append)

lemma reply_text_second:
  assumes "data \<noteq> JNull" "\<not> truthy_property p (own_property data (ascii ''reply''))"
    "own_property data (ascii ''response'') = Some v" "truthy p v"
  shows "reply_text p data =
           (case to_string p v of Inr t \<Rightarrow> t | Inl e \<Rightarrow> ascii ''Error: '' @ err_message e)"
  using assms
  by (simp add: reply_text_def reply_expression_def own_property_get truthy_property_def
      truthy_textContent del: ascii_append)

lemma reply_text_third:
  assumes "data \<noteq> JNull" "\<not> truthy_property p (own_property data (ascii ''reply''))"
    "\<not> truthy_property p (own_property data (ascii ''response''))"
  shows "reply_text p data =
           (if json_depth data \<le> Suc (stringify_levels p) then JSON_stringify p data
            else ascii ''Error: '' @ stack_overflow_message p)"
  using assms
  by (simp add: reply_text_def reply_expression_def own_property_get call_JSON_stringify_def
      del: ascii_append)

text \<open>
  A body that is \<^verbatim>\<open>null\<close> is valid JSON, but reading \<^verbatim>\<open>data.reply\<close> throws:
  the handler shows the engine's TypeError message.
\<close>

lemma reply_text_null:
  "reply_text p JNull = ascii ''Error: '' @ null_read_message p (ascii ''reply'')"
  by (simp add: reply_text_def reply_expression_def del: ascii_append)

lemma submit_parsed:
  assumes "trim (input_value s) \<noteq> []" "ok r" "json_result r = Fulfilled data"
  shows "fst (submit p (Fulfilled r) s) = Returned"
    and "children (chatWindow (snd (submit p (Fulfilled r) s))) =
         children (chatWindow s) @
         [message_node (trim (input_value s)) User, message_node (reply_text p data) Agent]"
  using assms by (simp_all add: submit_closed_form agent_text_def on_submit_page)

subsection \<open>Overlapping submissions: the log only grows\<close>

lemma after_fetch_page:
  "after_fetch p settled s = (Suspended AwaitJson, s)
   \<or> (\<exists>t. after_fetch p settled s = (Returned, shown p (message_node t Agent) s))"
  by (cases settled) (auto simp add: after_fetch_def catch_block_shown)

lemma after_json_page:
  "\<exists>t. after_json p settled s = (Returned, shown p (message_node t Agent) s)"
  by (cases settled) (auto simp add: after_json_rejected after_json_parsed simp del: ascii_append)

lemma step_extends:
  assumes "step p s s'"
  shows "prefix (children (chatWindow s)) (children (chatWindow s'))"
  using assms
proof cases
  case (typed v)
  then show ?thesis by simp
next
  case submitted
  then show ?thesis
    by (cases "trim (input_value s) = []") (simp_all add: on_submit_blank on_submit_page)
next
  case (fetch_settled settled)
  then show ?thesis
    using after_fetch_page [of p settled s] by auto
next
  case (json_settled settled)
  then show ?thesis
    using after_json_page [of p settled s] by auto
qed

lemma steps_extend:
  assumes "rtranclp (step p) s s'"
  shows "prefix (children (chatWindow s)) (children (chatWindow s'))"
  using assms
proof (induction rule: rtranclp_induct)
  case base
  then show ?case by simp
next
  case (step y z)
  then show ?case using step_extends prefix_order.trans by blast
qed

lemma user_message_stays:
  assumes "trim (input_value s) \<noteq> []" and "rtranclp (step p) (snd (on_submit p s)) s2"
  shows "length (children (chatWindow s)) < length (children (chatWindow s2))"
    and "children (chatWindow s2) ! length (children (chatWindow s)) =
         message_node (trim (input_value s)) User"
proof -
  from steps_extend [OF assms(2)] assms(1)
  obtain more where m: "children (chatWindow s2) =
      (children (chatWindow s) @ [message_node (trim (input_value s)) User]) @ more"
    by (auto simp add: on_submit_page prefix_def)
  show "length (children (chatWindow s)) < length (children (chatWindow s2))"
    by (simp add: m)
  show "children (chatWindow s2) ! length (children (chatWindow s)) =
         message_node (trim (input_value s)) User"
    by (simp add: m nth_append)
qed

section \<open>The claims\<close>

text \<open>
  C2. For every input whose trimmed value is empty (the empty string or white space
  only), submitting appends no message, issues no network call and leaves the input
  field and the message log unchanged: the handler returns at its guard, whatever the
  network would have answered, and the only effect is \<^verbatim>\<open>e.preventDefault()\<close>.
\<close>

theorem blank_input_is_ignored:
  assumes "trim (input_value s) = []"
  shows "fst (submit p net s) = Returned
       \<and> input_value (snd (submit p net s)) = input_value s
       \<and> chatWindow (snd (submit p net s)) = chatWindow s
       \<and> rendered (trace (snd (submit p net s))) = rendered (trace s)
       \<and> requests (trace (snd (submit p net s))) = requests (trace s)"
  using assms by (simp add: submit_def on_submit_blank)

theorem blank_input_is_ignored_witness:
  "trim (input_value (empty_page\<lparr>input_value := [0x20, 0x09, 0xA0]\<rparr>)) = []
   \<and> fst (submit sample_platform (Rejected (Thrown TypeError (ascii ''Failed to fetch'')))
        (empty_page\<lparr>input_value := [0x20, 0x09, 0xA0]\<rparr>)) = Returned
   \<and> input_value (snd (submit sample_platform (Rejected (Thrown TypeError (ascii ''Failed to fetch'')))
        (empty_page\<lparr>input_value := [0x20, 0x09, 0xA0]\<rparr>))) = [0x20, 0x09, 0xA0]
   \<and> chatWindow (snd (submit sample_platform (Rejected (Thrown TypeError (ascii ''Failed to fetch'')))
        (empty_page\<lparr>input_value := [0x20, 0x09, 0xA0]\<rparr>))) = \<lparr>children = [], scroll_top = 0\<rparr>
   \<and> requests (trace (snd (submit sample_platform (Rejected (Thrown TypeError (ascii ''Failed to fetch'')))
        (empty_page\<lparr>input_value := [0x20, 0x09, 0xA0]\<rparr>)))) = []"
proof -
  let ?s = "empty_page\<lparr>input_value := [0x20, 0x09, 0xA0]\<rparr>"
  have i: "trim (input_value ?s) = []"
    by (simp add: trim_def is_white_space_def)
  show ?thesis
    using blank_input_is_ignored [OF i, of sample_platform
        "Rejected (Thrown TypeError (ascii ''Failed to fetch''))"] i
    by (simp add: empty_page_def)
qed

text \<open>
  C3. For every input whose trimmed value is not empty, submitting appends exactly one
  message with sender \<^verbatim>\<open>user\<close>, whose text is the trimmed input, and sets the
  input field to the empty string. Both happen in the synchronous part of the handler
  and still hold when the submission has run its course, whatever the network answers:
  whatever else the submission appends is not a user message.
\<close>

theorem user_message_and_cleared_input:
  assumes "trim (input_value s) \<noteq> []"
  shows "children (chatWindow (snd (on_submit p s))) =
           children (chatWindow s) @ [message_node (trim (input_value s)) User]
       \<and> input_value (snd (on_submit p s)) = []
       \<and> (\<exists>rest. children (chatWindow (snd (submit p net s))) =
                    children (chatWindow s) @ message_node (trim (input_value s)) User # rest
                  \<and> filter (sent_by User) rest = [])
       \<and> input_value (snd (submit p net s)) = []"
  using assms by (simp add: submit_page on_submit_page split: option.splits)

theorem user_message_and_cleared_input_witness:
  "trim (input_value (empty_page\<lparr>input_value := ascii '' hi ''\<rparr>)) \<noteq> []
   \<and> children (chatWindow (snd (on_submit sample_platform (empty_page\<lparr>input_value := ascii '' hi ''\<rparr>)))) =
       [message_node (ascii ''hi'') User]
   \<and> input_value (snd (on_submit sample_platform (empty_page\<lparr>input_value := ascii '' hi ''\<rparr>))) = []
   \<and> input_value (snd (submit sample_platform Pending (empty_page\<lparr>input_value := ascii '' hi ''\<rparr>))) = []"
proof -
  let ?s = "empty_page\<lparr>input_value := ascii '' hi ''\<rparr>"
  have i: "trim (input_value ?s) \<noteq> []"
    by (simp add: trim_sample)
  show ?thesis
    using user_message_and_cleared_input [OF i, of sample_platform Pending] i
    by (simp add: empty_page_def trim_sample)
qed

text \<open>
  C4. For every response whose status is not 2xx (\<^verbatim>\<open>response.ok\<close> is false), the
  submission appends exactly one agent message, and its text is the string
  \<^verbatim>\<open>Error: Server error\<close>.
\<close>

theorem server_error_message:
  assumes "trim (input_value s) \<noteq> []" and "\<not> ok r"
  shows "fst (submit p (Fulfilled r) s) = Returned
       \<and> children (chatWindow (snd (submit p (Fulfilled r) s))) =
           children (chatWindow s) @
           [message_node (trim (input_value s)) User,
            message_node (ascii ''Error: Server error'') Agent]"
  using assms by (simp add: submit_not_ok on_submit_page)

theorem server_error_message_witness:
  "trim (input_value (empty_page\<lparr>input_value := ascii '' hi ''\<rparr>)) \<noteq> []
   \<and> \<not> ok \<lparr>status = 500, json_result = Fulfilled (JObj [(ascii ''reply'', JStr (ascii ''yes''))] :: int json)\<rparr>
   \<and> children (chatWindow (snd (submit sample_platform
        (Fulfilled \<lparr>status = 500, json_result = Fulfilled (JObj [(ascii ''reply'', JStr (ascii ''yes''))])\<rparr>)
        (empty_page\<lparr>input_value := ascii '' hi ''\<rparr>)))) =
       [message_node (ascii ''hi'') User, message_node (ascii ''Error: Server error'') Agent]"
proof -
  let ?s = "empty_page\<lparr>input_value := ascii '' hi ''\<rparr>"
  let ?r = "\<lparr>status = 500, json_result = Fulfilled (JObj [(ascii ''reply'', JStr (ascii ''yes''))] :: int json)\<rparr>"
  have i: "trim (input_value ?s) \<noteq> []"
    by (simp add: trim_sample)
  have k: "\<not> ok ?r"
    by (simp add: ok_def)
  show ?thesis
    using server_error_message [OF i k, of sample_platform] i k
    by (simp add: empty_page_def trim_sample)
qed

text \<open>
  C5. For every transport failure (\<^verbatim>\<open>fetch\<close> rejects) whose error carries the
  message \<open>m\<close>, the submission appends exactly one agent message, and its text is
  \<^verbatim>\<open>Error: \<close> followed by \<open>m\<close>.
\<close>

theorem transport_error_message:
  assumes "trim (input_value s) \<noteq> []"
  shows "fst (submit p (Rejected err) s) = Returned
       \<and> children (chatWindow (snd (submit p (Rejected err) s))) =
           children (chatWindow s) @
           [message_node (trim (input_value s)) User,
            message_node (ascii ''Error: '' @ err_message err) Agent]"
  using assms by (simp add: submit_rejected on_submit_page del: ascii_append)

theorem transport_error_message_witness:
  "trim (input_value (empty_page\<lparr>input_value := ascii '' hi ''\<rparr>)) \<noteq> []
   \<and> children (chatWindow (snd (submit sample_platform
        (Rejected (Thrown TypeError (ascii ''network down'')))
        (empty_page\<lparr>input_value := ascii '' hi ''\<rparr>)))) =
       [message_node (ascii ''hi'') User, message_node (ascii ''Error: network down'') Agent]"
proof -
  let ?s = "empty_page\<lparr>input_value := ascii '' hi ''\<rparr>"
  have i: "trim (input_value ?s) \<noteq> []"
    by (simp add: trim_sample)
  have a: "ascii ''Error: '' @ ascii ''network down'' = ascii ''Error: network down''"
    by (simp add: ascii_def)
  show ?thesis
    using transport_error_message [OF i, of sample_platform "Thrown TypeError (ascii ''network down'')"] i
    by (simp add: empty_page_def trim_sample a del: ascii_append)
qed

text \<open>
  C6. For every input whose trimmed value is not empty, the submission issues exactly
  one network request, whatever the answer: a POST to \<^verbatim>\<open>/api/chat\<close> with the header
  \<^verbatim>\<open>Content-Type: application/json\<close>, whose body is the JSON serialization of the
  object with the single property \<^verbatim>\<open>message\<close> holding the trimmed text.
\<close>

theorem one_post_request:
  assumes "trim (input_value s) \<noteq> []"
  shows "requests (trace (snd (submit p net s))) =
           requests (trace s) @
           [\<lparr>req_url = ascii ''/api/chat'', req_method = ascii ''POST'',
             req_headers = [(ascii ''Content-Type'', ascii ''application/json'')],
             req_body = JSON_stringify p (JObj [(ascii ''message'', JStr (trim (input_value s)))])\<rparr>]
       \<and> JSON_stringify p (JObj [(ascii ''message'', JStr (trim (input_value s)))]) =
           ascii ''{'' @ quote_json_string (ascii ''message'') @ ascii '':'' @
           quote_json_string (trim (input_value s)) @ ascii ''}''"
  using assms by (simp add: submit_page on_submit_page split: option.splits)

theorem one_post_request_witness:
  "trim (input_value (empty_page\<lparr>input_value := ascii '' hi ''\<rparr>)) \<noteq> []
   \<and> requests (trace (snd (submit sample_platform
        (Rejected (Thrown TypeError (ascii ''network down'')))
        (empty_page\<lparr>input_value := ascii '' hi ''\<rparr>)))) =
       [\<lparr>req_url = ascii ''/api/chat'', req_method = ascii ''POST'',
         req_headers = [(ascii ''Content-Type'', ascii ''application/json'')],
         req_body = ascii ''{'' @ [0x22] @ ascii ''message'' @ [0x22] @ ascii '':'' @
                    [0x22] @ ascii ''hi'' @ [0x22] @ ascii ''}''\<rparr>]"
proof -
  let ?s = "empty_page\<lparr>input_value := ascii '' hi ''\<rparr>"
  have i: "trim (input_value ?s) \<noteq> []"
    by (simp add: trim_sample)
  have q: "quote_json_string (ascii ''message'') = [0x22] @ ascii ''message'' @ [0x22]"
    "quote_json_string (ascii ''hi'') = [0x22] @ ascii ''hi'' @ [0x22]"
    by (simp_all add: quote_json_string_def quote_unit_def ascii_def
        is_high_surrogate_def is_low_surrogate_def)
  show ?thesis
    using one_post_request [OF i, of sample_platform
        "Rejected (Thrown TypeError (ascii ''network down''))"] i
    by (simp add: empty_page_def trim_sample q)
qed

text \<open>
  C9. For every 2xx response whose body fails to parse as JSON
  (\<^verbatim>\<open>response.json()\<close> rejects with an error carrying the message \<open>m\<close>), the
  failure is caught: the handler returns normally and appends exactly one agent
  message, whose text is \<^verbatim>\<open>Error: \<close> followed by \<open>m\<close>.
\<close>

theorem parse_error_message:
  assumes "trim (input_value s) \<noteq> []" and "ok r" and "json_result r = Rejected err"
  shows "fst (submit p (Fulfilled r) s) = Returned
       \<and> children (chatWindow (snd (submit p (Fulfilled r) s))) =
           children (chatWindow s) @
           [message_node (trim (input_value s)) User,
            message_node (ascii ''Error: '' @ err_message err) Agent]"
  using assms by (simp add: submit_ok after_json_rejected on_submit_page del: ascii_append)

theorem parse_error_message_witness:
  "trim (input_value (empty_page\<lparr>input_value := ascii '' hi ''\<rparr>)) \<noteq> []
   \<and> ok \<lparr>status = 200, json_result = (Rejected (Thrown SyntaxError (ascii ''Unexpected end of JSON input'')) :: int json promise)\<rparr>
   \<and> fst (submit sample_platform
        (Fulfilled \<lparr>status = 200, json_result = Rejected (Thrown SyntaxError (ascii ''Unexpected end of JSON input''))\<rparr>)
        (empty_page\<lparr>input_value := ascii '' hi ''\<rparr>)) = Returned
   \<and> children (chatWindow (snd (submit sample_platform
        (Fulfilled \<lparr>status = 200, json_result = Rejected (Thrown SyntaxError (ascii ''Unexpected end of JSON input''))\<rparr>)
        (empty_page\<lparr>input_value := ascii '' hi ''\<rparr>)))) =
       [message_node (ascii ''hi'') User,
        message_node (ascii ''Error: Unexpected end of JSON input'') Agent]"
proof -
  let ?s = "empty_page\<lparr>input_value := ascii '' hi ''\<rparr>"
  let ?r = "\<lparr>status = 200, json_result = (Rejected (Thrown SyntaxError (ascii ''Unexpected end of JSON input'')) :: int json promise)\<rparr>"
  have i: "trim (input_value ?s) \<noteq> []"
    by (simp add: trim_sample)
  have k: "ok ?r"
    by (simp add: ok_def)
  have a: "ascii ''Error: '' @ ascii ''Unexpected end of JSON input'' =
           ascii ''Error: Unexpected end of JSON input''"
    by (simp add: ascii_def)
  show ?thesis
    using parse_error_message [OF i k, of "Thrown SyntaxError (ascii ''Unexpected end of JSON input'')" sample_platform] i k
    by (simp add: empty_page_def trim_sample a del: ascii_append)
qed

text \<open>
  C10. For every input whose trimmed value is not empty, the user message is appended
  and the input field is cleared before the network call is issued (the effects of the
  synchronous part are, in this order: \<^verbatim>\<open>preventDefault\<close>, the user node, the
  cleared field, the request), and the submission's user message precedes its own
  agent message in the log. This also holds with other activity in between: whatever
  runs on the page after the synchronous part, the user node stays at its index, and
  when the handler is resumed its agent node is appended behind everything the
  container holds by then.
\<close>

theorem user_message_precedes_agent_message:
  assumes "trim (input_value s) \<noteq> []"
  shows "trace (snd (on_submit p s)) =
           trace s @
           [DefaultPrevented,
            Rendered (message_node (trim (input_value s)) User),
            InputSet [],
            Requested
              \<lparr>req_url = ascii ''/api/chat'', req_method = ascii ''POST'',
               req_headers = [(ascii ''Content-Type'', ascii ''application/json'')],
               req_body = JSON_stringify p (JObj [(ascii ''message'', JStr (trim (input_value s)))])\<rparr>]
       \<and> (\<exists>later. trace (snd (submit p net s)) = trace (snd (on_submit p s)) @ later
             \<and> children (chatWindow (snd (submit p net s))) =
                 children (chatWindow s) @ message_node (trim (input_value s)) User # rendered later
             \<and> (later = [] \<or> (\<exists>t. later = [Rendered (message_node t Agent)])))
       \<and> (\<forall>s2. rtranclp (step p) (snd (on_submit p s)) s2 \<longrightarrow>
             length (children (chatWindow s)) < length (children (chatWindow s2))
             \<and> children (chatWindow s2) ! length (children (chatWindow s)) =
                 message_node (trim (input_value s)) User
             \<and> (\<forall>settled.
                   children (chatWindow (snd (after_fetch p settled s2))) = children (chatWindow s2)
                   \<or> (\<exists>t. children (chatWindow (snd (after_fetch p settled s2))) =
                            children (chatWindow s2) @ [message_node t Agent]))
             \<and> (\<forall>settled. \<exists>t.
                   children (chatWindow (snd (after_json p settled s2))) =
                   children (chatWindow s2) @ [message_node t Agent]))"
proof (intro conjI allI impI)
  show "trace (snd (on_submit p s)) =
           trace s @
           [DefaultPrevented,
            Rendered (message_node (trim (input_value s)) User),
            InputSet [],
            Requested
              \<lparr>req_url = ascii ''/api/chat'', req_method = ascii ''POST'',
               req_headers = [(ascii ''Content-Type'', ascii ''application/json'')],
               req_body = JSON_stringify p (JObj [(ascii ''message'', JStr (trim (input_value s)))])\<rparr>]"
    using assms by (simp add: on_submit_page)
  show "\<exists>later. trace (snd (submit p net s)) = trace (snd (on_submit p s)) @ later
             \<and> children (chatWindow (snd (submit p net s))) =
                 children (chatWindow s) @ message_node (trim (input_value s)) User # rendered later
             \<and> (later = [] \<or> (\<exists>t. later = [Rendered (message_node t Agent)]))"
    using assms by (auto simp add: submit_page split: option.splits)
next
  fix s2 assume r: "rtranclp (step p) (snd (on_submit p s)) s2"
  show "length (children (chatWindow s)) < length (children (chatWindow s2))"
    using user_message_stays(1) [OF assms r] .
  show "children (chatWindow s2) ! length (children (chatWindow s)) =
                 message_node (trim (input_value s)) User"
    using user_message_stays(2) [OF assms r] .
  show "children (chatWindow (snd (after_fetch p settled s2))) = children (chatWindow s2)
                   \<or> (\<exists>t. children (chatWindow (snd (after_fetch p settled s2))) =
                            children (chatWindow s2) @ [message_node t Agent])" for settled
    using after_fetch_page [of p settled s2] by auto
  show "\<exists>t. children (chatWindow (snd (after_json p settled s2))) =
                   children (chatWindow s2) @ [message_node t Agent]" for settled
    using after_json_page [of p settled s2] by auto
qed

theorem user_message_precedes_agent_message_witness:
  "trim (input_value (empty_page\<lparr>input_value := ascii '' hi ''\<rparr>)) \<noteq> []
   \<and> trace (snd (on_submit sample_platform (empty_page\<lparr>input_value := ascii '' hi ''\<rparr>))) =
       [DefaultPrevented,
        Rendered (message_node (ascii ''hi'') User),
        InputSet [],
        Requested
          \<lparr>req_url = ascii ''/api/chat'', req_method = ascii ''POST'',
           req_headers = [(ascii ''Content-Type'', ascii ''application/json'')],
           req_body = JSON_stringify sample_platform (JObj [(ascii ''message'', JStr (ascii ''hi''))])\<rparr>]"
proof -
  let ?s = "empty_page\<lparr>input_value := ascii '' hi ''\<rparr>"
  have i: "trim (input_value ?s) \<noteq> []"
    by (simp add: trim_sample)
  show ?thesis
    using user_message_precedes_agent_message [OF i, of sample_platform Pending] i
    by (simp add: empty_page_def trim_sample)
qed

text \<open>
  C8. No failure of the network call, transport error or server error, leaves the
  submit handler: it returns normally. After the request was issued the failure
  changes nothing but by appending one agent error message (the page is the one
  \<^verbatim>\<open>appendMessage\<close> yields from the page the synchronous part left; no second
  request, the input field as it was). After the failure a further submission, with
  any text typed and any answer of the network, runs exactly as on the freshly loaded
  page: the same completion, the same nodes appended, the same effects, the same
  input value.
\<close>

theorem failure_is_contained:
  assumes "trim (input_value s) \<noteq> []"
    and "(net = Rejected err \<and> m = err_message err)
       \<or> (net = Fulfilled r \<and> \<not> ok r \<and> m = ascii ''Server error'')"
  shows "fst (submit p net s) = Returned
       \<and> snd (submit p net s) =
           snd (appendMessage p (JStr (ascii ''Error: '' @ m)) Agent (snd (on_submit p s)))
       \<and> children (chatWindow (snd (submit p net s))) =
           children (chatWindow (snd (on_submit p s))) @ [message_node (ascii ''Error: '' @ m) Agent]
       \<and> input_value (snd (submit p net s)) = input_value (snd (on_submit p s))
       \<and> trace (snd (submit p net s)) =
           trace (snd (on_submit p s)) @ [Rendered (message_node (ascii ''Error: '' @ m) Agent)]
       \<and> (\<forall>v net2.
             fst (submit p net2 (snd (submit p net s)\<lparr>input_value := v\<rparr>)) =
               fst (submit p net2 (empty_page\<lparr>input_value := v\<rparr>))
           \<and> children (chatWindow (snd (submit p net2 (snd (submit p net s)\<lparr>input_value := v\<rparr>)))) =
               children (chatWindow (snd (submit p net s))) @
               children (chatWindow (snd (submit p net2 (empty_page\<lparr>input_value := v\<rparr>))))
           \<and> trace (snd (submit p net2 (snd (submit p net s)\<lparr>input_value := v\<rparr>))) =
               trace (snd (submit p net s)) @
               trace (snd (submit p net2 (empty_page\<lparr>input_value := v\<rparr>)))
           \<and> input_value (snd (submit p net2 (snd (submit p net s)\<lparr>input_value := v\<rparr>))) =
               input_value (snd (submit p net2 (empty_page\<lparr>input_value := v\<rparr>))))"
proof -
  have a: "submit p net s =
      (Returned, shown p (message_node (ascii ''Error: '' @ m) Agent) (snd (on_submit p s)))"
    using assms by (auto simp add: submit_rejected submit_not_ok simp del: ascii_append)
      (simp add: ascii_def)
  have b: "snd (appendMessage p (JStr (ascii ''Error: '' @ m)) Agent (snd (on_submit p s))) =
      shown p (message_node (ascii ''Error: '' @ m) Agent) (snd (on_submit p s))"
    by (simp add: appendMessage_shown del: ascii_append)
  have c: "fst (submit p net2 (q\<lparr>input_value := v\<rparr>)) =
               fst (submit p net2 (empty_page\<lparr>input_value := v\<rparr>))
           \<and> children (chatWindow (snd (submit p net2 (q\<lparr>input_value := v\<rparr>)))) =
               children (chatWindow q) @
               children (chatWindow (snd (submit p net2 (empty_page\<lparr>input_value := v\<rparr>))))
           \<and> trace (snd (submit p net2 (q\<lparr>input_value := v\<rparr>))) =
               trace q @ trace (snd (submit p net2 (empty_page\<lparr>input_value := v\<rparr>)))
           \<and> input_value (snd (submit p net2 (q\<lparr>input_value := v\<rparr>))) =
               input_value (snd (submit p net2 (empty_page\<lparr>input_value := v\<rparr>)))"
    for q v and net2 :: "'a response promise"
    using submit_frame [of p net2 "q\<lparr>input_value := v\<rparr>"] by simp
  show ?thesis
    using c [where q = "snd (submit p net s)"] by (simp add: a b del: ascii_append)
qed

theorem failure_is_contained_witness:
  "trim (input_value (empty_page\<lparr>input_value := ascii '' hi ''\<rparr>)) \<noteq> []
   \<and> fst (submit sample_platform (Rejected (Thrown TypeError (ascii ''network down'')))
        (empty_page\<lparr>input_value := ascii '' hi ''\<rparr>)) = Returned
   \<and> children (chatWindow (snd (submit sample_platform
        (Rejected (Thrown TypeError (ascii ''network down'')))
        (empty_page\<lparr>input_value := ascii '' hi ''\<rparr>)))) =
       [message_node (ascii ''hi'') User, message_node (ascii ''Error: network down'') Agent]
   \<and> input_value (snd (submit sample_platform
        (Rejected (Thrown TypeError (ascii ''network down'')))
        (empty_page\<lparr>input_value := ascii '' hi ''\<rparr>))) = []
   \<and> \<not> ok \<lparr>status = 503, json_result = (Pending :: int json promise)\<rparr>
   \<and> fst (submit sample_platform (Fulfilled \<lparr>status = 503, json_result = Pending\<rparr>)
        (empty_page\<lparr>input_value := ascii '' hi ''\<rparr>)) = Returned
   \<and> children (chatWindow (snd (submit sample_platform
        (Fulfilled \<lparr>status = 503, json_result = Pending\<rparr>)
        (empty_page\<lparr>input_value := ascii '' hi ''\<rparr>)))) =
       [message_node (ascii ''hi'') User, message_node (ascii ''Error: Server error'') Agent]"
proof -
  let ?s = "empty_page\<lparr>input_value := ascii '' hi ''\<rparr>"
  let ?down = "Rejected (Thrown TypeError (ascii ''network down'')) :: int response promise"
  let ?r = "\<lparr>status = 503, json_result = (Pending :: int json promise)\<rparr>"
  have i: "trim (input_value ?s) \<noteq> []"
    by (simp add: trim_sample)
  have k: "\<not> ok ?r"
    by (simp add: ok_def)
  have a: "ascii ''Error: '' @ ascii ''network down'' = ascii ''Error: network down''"
    "ascii ''Error: '' @ ascii ''Server error'' = ascii ''Error: Server error''"
    by (simp_all add: ascii_def)
  have f: "(?down = Rejected (Thrown TypeError (ascii ''network down''))
            \<and> ascii ''network down'' = err_message (Thrown TypeError (ascii ''network down'')))
         \<or> (?down = Fulfilled r \<and> \<not> ok r \<and> ascii ''network down'' = ascii ''Server error'')" for r
    by simp
  have f': "(Fulfilled ?r = Rejected err \<and> ascii ''Server error'' = err_message err)
         \<or> (Fulfilled ?r = Fulfilled ?r \<and> \<not> ok ?r \<and> ascii ''Server error'' = ascii ''Server error'')" for err
    using k by simp
  have g: "fst (submit sample_platform ?down ?s) = Returned
         \<and> children (chatWindow (snd (submit sample_platform ?down ?s))) =
             children (chatWindow (snd (on_submit sample_platform ?s))) @
             [message_node (ascii ''Error: '' @ ascii ''network down'') Agent]
         \<and> input_value (snd (submit sample_platform ?down ?s)) =
             input_value (snd (on_submit sample_platform ?s))"
    using failure_is_contained [OF i f, of sample_platform] by blast
  have g': "fst (submit sample_platform (Fulfilled ?r) ?s) = Returned
         \<and> children (chatWindow (snd (submit sample_platform (Fulfilled ?r) ?s))) =
             children (chatWindow (snd (on_submit sample_platform ?s))) @
             [message_node (ascii ''Error: '' @ ascii ''Server error'') Agent]"
    using failure_is_contained [OF i f', of sample_platform] by blast
  have h: "children (chatWindow (snd (on_submit sample_platform ?s))) = [message_node (ascii ''hi'') User]"
    "input_value (snd (on_submit sample_platform ?s)) = []"
    using i by (simp_all add: on_submit_page empty_page_def trim_sample)
  show ?thesis
    using g g' i k by (simp add: h a del: ascii_append)
qed

text \<open>
  C7 (as amended). After every append of a message (any sender, any text that
  converts to a string), the new node is the last child of the log container and the
  container is scrolled to its bottom: the script assigns the full content height
  \<^verbatim>\<open>scrollHeight\<close> to \<^verbatim>\<open>scrollTop\<close>, the container clamps the offset to its
  largest value, so the scroll position is the content height less the height of the
  viewport and the bottom of the content is in view. The scroll position is not the
  content height itself, as the claim has it: the page evaluated after the theorem
  shows the difference.
\<close>

theorem append_scrolls_to_bottom:
  assumes "textContent_value p txt = Inr t"
  shows "fst (appendMessage p txt sd s) = Inr ()
       \<and> children (chatWindow (snd (appendMessage p txt sd s))) =
           children (chatWindow s) @ [message_node t sd]
       \<and> scroll_top (chatWindow (snd (appendMessage p txt sd s))) =
           scrollHeight p (chatWindow (snd (appendMessage p txt sd s))) - client_height p
       \<and> scroll_top (chatWindow (snd (appendMessage p txt sd s))) + client_height p =
           scrollHeight p (chatWindow (snd (appendMessage p txt sd s)))"
  using assms by (simp add: appendMessage_shown shown_def scrollHeight_def)

theorem append_scrolls_to_bottom_witness:
  "textContent_value sample_platform (JStr (ascii ''hi'')) = Inr (ascii ''hi'')
   \<and> children (chatWindow (snd (appendMessage sample_platform (JStr (ascii ''hi'')) Agent
        (empty_page\<lparr>chatWindow :=
           \<lparr>children = replicate 6 (message_node (ascii ''x'') User), scroll_top = 20\<rparr>\<rparr>)))) =
       replicate 6 (message_node (ascii ''x'') User) @ [message_node (ascii ''hi'') Agent]
   \<and> scroll_top (chatWindow (snd (appendMessage sample_platform (JStr (ascii ''hi'')) Agent
        (empty_page\<lparr>chatWindow :=
           \<lparr>children = replicate 6 (message_node (ascii ''x'') User), scroll_top = 20\<rparr>\<rparr>)))) + 100 =
       scrollHeight sample_platform (chatWindow (snd (appendMessage sample_platform (JStr (ascii ''hi'')) Agent
        (empty_page\<lparr>chatWindow :=
           \<lparr>children = replicate 6 (message_node (ascii ''x'') User), scroll_top = 20\<rparr>\<rparr>))))"
proof -
  have i: "textContent_value sample_platform (JStr (ascii ''hi'')) = Inr (ascii ''hi'')"
    by simp
  have c: "client_height sample_platform = 100"
    by (simp add: sample_platform_def)
  show ?thesis
    using append_scrolls_to_bottom [OF i, of Agent
        "empty_page\<lparr>chatWindow :=
           \<lparr>children = replicate 6 (message_node (ascii ''x'') User), scroll_top = 20\<rparr>\<rparr>"] i
    by (simp add: c)
qed

text \<open>
  The claim as written: a viewport of 100 pixels holding six messages of 20 pixels,
  scrolled to 20. After the append the content is 140 pixels high and the scroll
  position is 40.
\<close>

theorem scroll_position_below_content_height:
  "scroll_top (chatWindow (snd (appendMessage sample_platform (JStr (ascii ''hi'')) Agent
        (empty_page\<lparr>chatWindow :=
           \<lparr>children = replicate 6 (message_node (ascii ''x'') User), scroll_top = 20\<rparr>\<rparr>)))) = 40
   \<and> scrollHeight sample_platform (chatWindow (snd (appendMessage sample_platform (JStr (ascii ''hi'')) Agent
        (empty_page\<lparr>chatWindow :=
           \<lparr>children = replicate 6 (message_node (ascii ''x'') User), scroll_top = 20\<rparr>\<rparr>)))) = 140
   \<and> scroll_top (chatWindow (snd (appendMessage sample_platform (JStr (ascii ''hi'')) Agent
        (empty_page\<lparr>chatWindow :=
           \<lparr>children = replicate 6 (message_node (ascii ''x'') User), scroll_top = 20\<rparr>\<rparr>)))) \<noteq>
      scrollHeight sample_platform (chatWindow (snd (appendMessage sample_platform (JStr (ascii ''hi'')) Agent
        (empty_page\<lparr>chatWindow :=
           \<lparr>children = replicate 6 (message_node (ascii ''x'') User), scroll_top = 20\<rparr>\<rparr>))))"
  by (simp add: appendMessage_def textContent_value_def appendChild_def set_scrollTop_def
      scrollHeight_def sample_platform_def empty_page_def Let_def)

text \<open>
  C1 (as amended). For every 2xx response whose body parses to a value other than
  \<^verbatim>\<open>null\<close>, the handler returns and appends one agent message. Its text is taken
  from the \<^verbatim>\<open>reply\<close> field if that field is present and truthy (for a string: not
  empty); otherwise from the \<^verbatim>\<open>response\<close> field if that is present and truthy;
  otherwise, when each of the two fields is absent or falsy, it is the serialized
  body. A field that is a string is shown as it is, any other value through its
  conversion to a string. Where the engine throws instead of yielding that string (the
  conversion of an object with an own \<^verbatim>\<open>toString\<close> property, a nesting deeper
  than the stack holds), the text is \<^verbatim>\<open>Error: \<close> followed by the message of
  the error thrown. As the claim is written (presence decides) it fails: a present
  but empty \<^verbatim>\<open>reply\<close> is passed over, as the two bodies evaluated after the
  theorem show.
\<close>

theorem reply_chosen_by_truthiness:
  assumes "trim (input_value s) \<noteq> []" and "ok r" and "json_result r = Fulfilled data"
    and "data \<noteq> JNull"
  shows
    "fst (submit p (Fulfilled r) s) = Returned
     \<and> (\<forall>v. own_property data (ascii ''reply'') = Some v \<and> truthy p v
          \<longrightarrow> children (chatWindow (snd (submit p (Fulfilled r) s))) =
              children (chatWindow s) @
              [message_node (trim (input_value s)) User,
               message_node
                 (case to_string p v of
                    Inr t \<Rightarrow> t
                  | Inl e \<Rightarrow> ascii ''Error: '' @ err_message e) Agent])
     \<and> (\<forall>v. \<not> truthy_property p (own_property data (ascii ''reply''))
          \<and> own_property data (ascii ''response'') = Some v \<and> truthy p v
          \<longrightarrow> children (chatWindow (snd (submit p (Fulfilled r) s))) =
              children (chatWindow s) @
              [message_node (trim (input_value s)) User,
               message_node
                 (case to_string p v of
                    Inr t \<Rightarrow> t
                  | Inl e \<Rightarrow> ascii ''Error: '' @ err_message e) Agent])
     \<and> (\<not> truthy_property p (own_property data (ascii ''reply''))
          \<and> \<not> truthy_property p (own_property data (ascii ''response''))
          \<longrightarrow> children (chatWindow (snd (submit p (Fulfilled r) s))) =
              children (chatWindow s) @
              [message_node (trim (input_value s)) User,
               message_node
                 (if json_depth data \<le> Suc (stringify_levels p) then JSON_stringify p data
                  else ascii ''Error: '' @ stack_overflow_message p) Agent])
     \<and> (\<forall>t. to_string p (JStr t) = Inr t)"
  using assms
  by (simp add: submit_parsed reply_text_first reply_text_second reply_text_third
      del: ascii_append)

theorem reply_chosen_by_truthiness_witness:
  "trim (input_value (empty_page\<lparr>input_value := ascii '' hi ''\<rparr>)) \<noteq> []
   \<and> ok \<lparr>status = 200, json_result = Fulfilled (JObj [(ascii ''reply'', JStr (ascii ''yes''))] :: int json)\<rparr>
   \<and> children (chatWindow (snd (submit sample_platform
        (Fulfilled \<lparr>status = 200, json_result = Fulfilled (JObj [(ascii ''reply'', JStr (ascii ''yes''))])\<rparr>)
        (empty_page\<lparr>input_value := ascii '' hi ''\<rparr>)))) =
      [message_node (ascii ''hi'') User, message_node (ascii ''yes'') Agent]
   \<and> children (chatWindow (snd (submit sample_platform
        (Fulfilled \<lparr>status = 200, json_result = Fulfilled (JObj [(ascii ''response'', JStr (ascii ''yes''))])\<rparr>)
        (empty_page\<lparr>input_value := ascii '' hi ''\<rparr>)))) =
      [message_node (ascii ''hi'') User, message_node (ascii ''yes'') Agent]
   \<and> children (chatWindow (snd (submit sample_platform
        (Fulfilled \<lparr>status = 200, json_result = Fulfilled (JObj [])\<rparr>)
        (empty_page\<lparr>input_value := ascii '' hi ''\<rparr>)))) =
      [message_node (ascii ''hi'') User, message_node (ascii ''{}'') Agent]
   \<and> children (chatWindow (snd (submit sample_platform
        (Fulfilled \<lparr>status = 200, json_result =
           Fulfilled (JObj [(ascii ''reply'', JObj [(ascii ''toString'', JNum 1)])])\<rparr>)
        (empty_page\<lparr>input_value := ascii '' hi ''\<rparr>)))) =
      [message_node (ascii ''hi'') User,
       message_node (ascii ''Error: Cannot convert object to primitive value'') Agent]
   \<and> children (chatWindow (snd (submit sample_platform
        (Fulfilled \<lparr>status = 200, json_result = Fulfilled (JArr [JArr [JArr [JArr []]]])\<rparr>)
        (empty_page\<lparr>input_value := ascii '' hi ''\<rparr>)))) =
      [message_node (ascii ''hi'') User,
       message_node (ascii ''Error: Maximum call stack size exceeded'') Agent]"
proof -
  let ?s = "empty_page\<lparr>input_value := ascii '' hi ''\<rparr>"
  have i: "trim (input_value ?s) \<noteq> []"
    by (simp add: trim_sample)
  have k: "ok \<lparr>status = 200, json_result = j\<rparr>" for j :: "int json promise"
    by (simp add: ok_def)
  have a: "children (chatWindow (snd (submit sample_platform
        (Fulfilled \<lparr>status = 200, json_result = Fulfilled (JObj [(ascii ''reply'', JStr (ascii ''yes''))])\<rparr>) ?s))) =
      [message_node (ascii ''hi'') User, message_node (ascii ''yes'') Agent]"
    using reply_chosen_by_truthiness [where p = sample_platform
        and data = "JObj [(ascii ''reply'', JStr (ascii ''yes''))]", OF i k]
    by (simp add: own_property_def empty_page_def ascii_def trim_def is_white_space_def)
  have b: "children (chatWindow (snd (submit sample_platform
        (Fulfilled \<lparr>status = 200, json_result = Fulfilled (JObj [(ascii ''response'', JStr (ascii ''yes''))])\<rparr>) ?s))) =
      [message_node (ascii ''hi'') User, message_node (ascii ''yes'') Agent]"
    using reply_chosen_by_truthiness [where p = sample_platform
        and data = "JObj [(ascii ''response'', JStr (ascii ''yes''))]", OF i k]
    by (simp add: own_property_def truthy_property_def empty_page_def ascii_def trim_def
        is_white_space_def)
  have c: "children (chatWindow (snd (submit sample_platform
        (Fulfilled \<lparr>status = 200, json_result = Fulfilled (JObj [])\<rparr>) ?s))) =
      [message_node (ascii ''hi'') User, message_node (ascii ''{}'') Agent]"
    using reply_chosen_by_truthiness [where p = sample_platform and data = "JObj []", OF i k]
    by (simp add: own_property_def truthy_property_def empty_page_def ascii_def trim_def
        is_white_space_def)
  have d: "children (chatWindow (snd (submit sample_platform
        (Fulfilled \<lparr>status = 200, json_result =
           Fulfilled (JObj [(ascii ''reply'', JObj [(ascii ''toString'', JNum 1)])])\<rparr>) ?s))) =
      [message_node (ascii ''hi'') User,
       message_node (ascii ''Error: Cannot convert object to primitive value'') Agent]"
    using reply_chosen_by_truthiness [where p = sample_platform
        and data = "JObj [(ascii ''reply'', JObj [(ascii ''toString'', JNum 1)])]", OF i k]
    by (simp add: own_property_def to_string_def sample_platform_def empty_page_def ascii_def
        trim_def is_white_space_def)
  have e: "children (chatWindow (snd (submit sample_platform
        (Fulfilled \<lparr>status = 200, json_result = Fulfilled (JArr [JArr [JArr [JArr []]]])\<rparr>) ?s))) =
      [message_node (ascii ''hi'') User,
       message_node (ascii ''Error: Maximum call stack size exceeded'') Agent]"
    using reply_chosen_by_truthiness [where p = sample_platform
        and data = "JArr [JArr [JArr [JArr []]]]", OF i k]
    by (simp add: own_property_def truthy_property_def sample_platform_def empty_page_def
        ascii_def trim_def is_white_space_def)
  from i k a b c d e show ?thesis by blast
qed

text \<open>
  The claim as written, at two bodies. With \<^verbatim>\<open>{"reply": "", "response": "hello"}\<close>
  the \<^verbatim>\<open>reply\<close> field is present and its value is the empty string, which is what
  the claim makes the text; the handler shows \<^verbatim>\<open>hello\<close>. With \<^verbatim>\<open>{"reply": ""}\<close>
  a field is present, yet the handler shows the serialized body.
\<close>

theorem empty_reply_is_skipped:
  "spec_reply_text sample_platform
     (JObj [(ascii ''reply'', JStr []), (ascii ''response'', JStr (ascii ''hello''))]) = Inr []
   \<and> children (chatWindow (snd (submit sample_platform
        (Fulfilled \<lparr>status = 200, json_result =
           Fulfilled (JObj [(ascii ''reply'', JStr []), (ascii ''response'', JStr (ascii ''hello''))])\<rparr>)
        (empty_page\<lparr>input_value := ascii '' hi ''\<rparr>)))) =
      [message_node (ascii ''hi'') User, message_node (ascii ''hello'') Agent]
   \<and> ascii ''hello'' \<noteq> ([] :: jsstring)
   \<and> spec_reply_text sample_platform (JObj [(ascii ''reply'', JStr [])]) = Inr []
   \<and> children (chatWindow (snd (submit sample_platform
        (Fulfilled \<lparr>status = 200, json_result = Fulfilled (JObj [(ascii ''reply'', JStr [])])\<rparr>)
        (empty_page\<lparr>input_value := ascii '' hi ''\<rparr>)))) =
      [message_node (ascii ''hi'') User,
       message_node (ascii ''{'' @ [0x22] @ ascii ''reply'' @ [0x22] @ ascii '':'' @ [0x22, 0x22] @
                     ascii ''}'') Agent]"
proof -
  let ?s = "empty_page\<lparr>input_value := ascii '' hi ''\<rparr>"
  have i: "trim (input_value ?s) \<noteq> []"
    by (simp add: trim_sample)
  have k: "ok \<lparr>status = 200, json_result = j\<rparr>" for j :: "int json promise"
    by (simp add: ok_def)
  have a: "reply_text sample_platform
      (JObj [(ascii ''reply'', JStr []), (ascii ''response'', JStr (ascii ''hello''))]) = ascii ''hello''"
    by (simp add: reply_text_def reply_expression_def truthy_property_def ascii_def)
  have b: "reply_text sample_platform (JObj [(ascii ''reply'', JStr [])]) =
      ascii ''{'' @ [0x22] @ ascii ''reply'' @ [0x22] @ ascii '':'' @ [0x22, 0x22] @ ascii ''}''"
    by (simp add: reply_text_def reply_expression_def truthy_property_def ascii_def
        call_JSON_stringify_def quote_json_string_def quote_unit_def is_high_surrogate_def
        is_low_surrogate_def)
  have c: "spec_reply_text sample_platform
     (JObj [(ascii ''reply'', JStr []), (ascii ''response'', JStr (ascii ''hello''))]) = Inr []"
    "spec_reply_text sample_platform (JObj [(ascii ''reply'', JStr [])]) = Inr []"
    by (simp_all add: spec_reply_text_def own_property_def)
  show ?thesis
    using submit_parsed(2) [OF i k, where p = sample_platform] c
    by (simp add: a b trim_sample empty_page_def del: ascii_append)
qed

end
